theory Spec2Isabelle
  imports Complex_Main
begin

section \<open>Data model\<close>

text \<open>
  The two scripts, \<^verbatim>\<open>create_dataset_subset.py\<close> and \<^verbatim>\<open>verify_subset.py\<close>, work on
  datasets kept by an external store. A dataset is a schema (the keys of
  \<^verbatim>\<open>dataset.features\<close>) and an ordered sequence of records; a record is a Python dict
  from field name to value, kept here as an association list in insertion order.
\<close>

datatype py_error =
    ValueError | ZeroDivisionError | IndexError | TypeError | KeyError | LoadError
  | OverflowError | PermissionError | FileNotFoundError

datatype py_float = Finite rat | PosInf | NegInf | NaN

datatype pyval =
    VNone | VBool bool | VInt int | VFloat rat | VStr string
  | VList "pyval list" | VDict "(string \<times> pyval) list"

type_synonym row = "(string \<times> pyval) list"

record dataset =
  features :: "string list"
  rows :: "row list"

text \<open>
  Every message the two scripts print is one event (a banner of several lines, or a
  heading with the line that completes it, is one event); an event carries the values
  the message is formatted from: the creator's two messages about the size carry the
  size with the number of records, or with the percentage given. A float is a finite
  one, the rational it denotes, or an infinity or a NaN. The messages are grouped by
  the step that prints them. \<^verbatim>\<open>ParserError\<close> is the message of \<^verbatim>\<open>parser.error\<close>, and \<^verbatim>\<open>Traceback\<close> the report
  of an exception that leaves \<^verbatim>\<open>main\<close>.
\<close>

datatype create_msg =
    LoadingDataset string
  | OriginalSize nat
  | CreatingCount int nat
  | CreatingPct int py_float
  | SelectedIndices nat
  | SelectingSamples
  | SavingTo string
  | SubsetSaved
  | SavedSamples nat
  | SavedLocation string

datatype exist_msg =
    CheckingDirs
  | ErrOriginalNotFound string
  | OriginalFound string
  | ErrSubsetNotFound string
  | SubsetFound string

datatype load_msg =
    LoadingDatasets
  | OriginalLoaded nat
  | ErrLoadingOriginal py_error
  | SubsetLoaded nat
  | ErrLoadingSubset py_error

datatype size_msg =
    SizeComparison
  | ReportOriginalSize nat
  | ReportSubsetSize nat
  | ReportPercentage rat
  | WarnSubsetLarger
  | ErrSubsetEmpty

datatype feature_msg =
    CheckingFeatures
  | FeaturesMatch "string set"
  | WarnFeaturesDiffer
  | ReportOriginalFeatures "string set"
  | ReportSubsetFeatures "string set"
  | MissingInSubset "string set"
  | ExtraInSubset "string set"

datatype sample_msg =
    CheckingSample
  | SampleStructureMatches
  | WarnSampleStructureDiffers
  | WarnTypeMismatch string
  | WarnEmptyList string
  | SampleValid
  | WarnSampleError py_error

datatype display_msg =
    DisplayingSamples int
  | SampleHeading nat
  | ShowStrList string "pyval list" bool
  | ShowNumList string nat "pyval list"
  | ShowListLength string nat
  | ShowScalar string pyval
  | WarnDisplayError py_error

datatype event =
    Create create_msg
  | ParserError string
  | Traceback py_error
  | Header
  | Exist exist_msg
  | Load load_msg
  | Size size_msg
  | Feature feature_msg
  | Sample sample_msg
  | Display display_msg
  | Summary nat nat rat

text \<open>
  The world the scripts run in: which paths exist (\<^verbatim>\<open>os.path.exists\<close>), what the
  store holds at a path (a path that exists but holds no loadable dataset makes
  \<^verbatim>\<open>load_from_disk\<close> raise), the console output so far, and where making a directory
  or saving a dataset fails, with the exception raised there (a regular file in the
  way, a parent that cannot be written, a full disk). A path stands for
  the location it names.
\<close>

record world =
  paths :: "string set"
  store :: "string \<rightharpoonup> dataset"
  console :: "event list"
  mkdir_error :: "string \<rightharpoonup> py_error"
  save_error :: "string \<rightharpoonup> py_error"

definition emit :: "event \<Rightarrow> world \<Rightarrow> world" where
  "emit e w = w\<lparr>console := console w @ [e]\<rparr>"

definition load_from_disk :: "world \<Rightarrow> string \<Rightarrow> py_error + dataset" where
  "load_from_disk w path =
     (if path \<in> paths w
      then (case store w path of None \<Rightarrow> Inl LoadError | Some ds \<Rightarrow> Inr ds)
      else Inl LoadError)"

definition makedirs :: "string \<Rightarrow> world \<Rightarrow> py_error + world" where
  \<comment> \<open>\<^verbatim>\<open>os.makedirs(path, exist_ok=True)\<close>\<close>
  "makedirs path w =
     (if path = [] then Inl FileNotFoundError
      else case mkdir_error w path of
             Some e \<Rightarrow> Inl e
           | None \<Rightarrow> Inr (w\<lparr>paths := insert path (paths w)\<rparr>))"

definition save_to_disk :: "dataset \<Rightarrow> string \<Rightarrow> string \<Rightarrow> world \<Rightarrow> py_error + world" where
  \<comment> \<open>\<^verbatim>\<open>ds.save_to_disk(path)\<close> of a dataset that was loaded from \<open>origin\<close> (a selection of
      it reads the same files): a dataset cannot overwrite itself, and a dataset saved
      without records does not load back\<close>
  "save_to_disk ds origin path w =
     (if path = origin then Inl PermissionError
      else case save_error w path of
             Some e \<Rightarrow> Inl e
           | None \<Rightarrow>
               Inr (w\<lparr>paths := insert path (paths w),
                      store := (store w)(path := if rows ds = [] then None else Some ds)\<rparr>))"

definition select :: "dataset \<Rightarrow> nat list \<Rightarrow> py_error + dataset" where
  \<comment> \<open>\<^verbatim>\<open>dataset.select(indices)\<close>: the records at the indices, in the order given\<close>
  "select ds indices =
     (if list_all (\<lambda>i. i < length (rows ds)) indices
      then Inr (ds\<lparr>rows := map (\<lambda>i. rows ds ! i) indices\<rparr>)
      else Inl IndexError)"

section \<open>The subset creator\<close>

text \<open>
  Two operations of the platform are parameters of the model:
  \<^item> \<open>choice seed a k replace\<close> stands for
    \<^verbatim>\<open>np.random.default_rng(seed=seed).choice(a, size=k, replace=replace)\<close>; that a
    generator seeded with the same integer makes the same draw is what makes it a
    function;
  \<^item> \<open>fmul n p\<close> stands for the double-precision product \<^verbatim>\<open>n * p\<close> of an int and a
    float, with its rounding and its overflow to an infinity.
\<close>

type_synonym sampler = "int \<Rightarrow> nat \<Rightarrow> int \<Rightarrow> bool \<Rightarrow> py_error + nat list"
type_synonym float_mul = "int \<Rightarrow> py_float \<Rightarrow> py_float"

definition py_int :: "py_float \<Rightarrow> py_error + int" where
  \<comment> \<open>\<^verbatim>\<open>int(x)\<close> of a float: truncation toward zero; an infinity raises
      \<^verbatim>\<open>OverflowError\<close> and a NaN \<^verbatim>\<open>ValueError\<close>\<close>
  "py_int x =
     (case x of
        Finite q \<Rightarrow> Inr (if 0 \<le> q then \<lfloor>q\<rfloor> else \<lceil>q\<rceil>)
      | PosInf \<Rightarrow> Inl OverflowError
      | NegInf \<Rightarrow> Inl OverflowError
      | NaN \<Rightarrow> Inl ValueError)"

definition py_truediv :: "int \<Rightarrow> int \<Rightarrow> py_error + rat" where
  \<comment> \<open>\<^verbatim>\<open>a / b\<close> on ints\<close>
  "py_truediv a b = (if b = 0 then Inl ZeroDivisionError else Inr (of_int a / of_int b))"

definition resolve_subset_size ::
  "float_mul \<Rightarrow> nat \<Rightarrow> int option \<Rightarrow> py_float option \<Rightarrow> py_error + (int \<times> event)" where
  \<comment> \<open>lines 25 to 32 of \<^verbatim>\<open>create_subset\<close>: the size, and the message printed with it;
      the message of the count branch divides the size by \<^verbatim>\<open>total_size\<close>\<close>
  "resolve_subset_size fmul total_size subset_size subset_percentage =
     (case subset_size of
        Some n \<Rightarrow>
          (let k = min n (int total_size) in
           case py_truediv k (int total_size) of
             Inl e \<Rightarrow> Inl e
           | Inr q \<Rightarrow> Inr (k, Create (CreatingCount k total_size)))
      | None \<Rightarrow>
          (case subset_percentage of
             Some p \<Rightarrow>
               (case py_int (fmul (int total_size) p) of
                  Inl e \<Rightarrow> Inl e
                | Inr k \<Rightarrow> Inr (k, Create (CreatingPct k p)))
           | None \<Rightarrow> Inl ValueError))"

definition create_subset ::
  "sampler \<Rightarrow> float_mul \<Rightarrow> string \<Rightarrow> string \<Rightarrow> int option \<Rightarrow> py_float option \<Rightarrow> int \<Rightarrow>
   world \<Rightarrow> py_error option \<times> world" where
  \<comment> \<open>the result is the exception that left the function, if any, and the world then\<close>
  "create_subset choice fmul dataset_path output_path subset_size subset_percentage
       random_seed w0 =
     (let w1 = emit (Create (LoadingDataset dataset_path)) w0 in
      case load_from_disk w1 dataset_path of
        Inl e \<Rightarrow> (Some e, w1)
      | Inr ds \<Rightarrow>
          (let total_size = length (rows ds);
               w2 = emit (Create (OriginalSize total_size)) w1 in
           case resolve_subset_size fmul total_size subset_size subset_percentage of
             Inl e \<Rightarrow> (Some e, w2)
           | Inr (k, msg) \<Rightarrow>
               (let w3 = emit msg w2 in
                case choice random_seed total_size k False of
                  Inl e \<Rightarrow> (Some e, w3)
                | Inr drawn \<Rightarrow>
                    (let random_indices = sort drawn;
                         w4 = emit (Create SelectingSamples)
                                (emit (Create (SelectedIndices (length random_indices))) w3) in
                     case select ds random_indices of
                       Inl e \<Rightarrow> (Some e, w4)
                     | Inr subset_ds \<Rightarrow>
                         (case makedirs output_path w4 of
                            Inl e \<Rightarrow> (Some e, w4)
                          | Inr w5 \<Rightarrow>
                              (let w6 = emit (Create (SavingTo output_path)) w5 in
                               case save_to_disk subset_ds dataset_path output_path w6 of
                                 Inl e \<Rightarrow> (Some e, w6)
                               | Inr w7 \<Rightarrow>
                                   (None,
                                    emit (Create (SavedLocation output_path))
                                      (emit (Create (SavedSamples (length (rows subset_ds))))
                                         (emit (Create SubsetSaved) w7)))))))))"

record args =
  input_arg :: string
  output_arg :: string
  size_arg :: "int option"
  percentage_arg :: "py_float option"
  seed_arg :: int

definition main_create :: "sampler \<Rightarrow> float_mul \<Rightarrow> args \<Rightarrow> world \<Rightarrow> nat \<times> world" where
  \<comment> \<open>\<^verbatim>\<open>main\<close> of the creator from \<^verbatim>\<open>args = parser.parse_args()\<close> on; the result is the
      exit status: 2 from \<^verbatim>\<open>parser.error\<close>, 1 from an uncaught exception, 0 otherwise\<close>
  "main_create choice fmul a w =
     (if size_arg a = None \<and> percentage_arg a = None
      then (2, emit (ParserError ''Either --size or --percentage must be provided'') w)
      else if size_arg a \<noteq> None \<and> percentage_arg a \<noteq> None
      then (2, emit (ParserError ''Provide either --size OR --percentage, not both'') w)
      else (case create_subset choice fmul (input_arg a) (output_arg a) (size_arg a)
                   (percentage_arg a) (seed_arg a) w of
              (None, w') \<Rightarrow> (0, w')
            | (Some e, w') \<Rightarrow> (1, emit (Traceback e) w')))"

section \<open>The subset verifier\<close>

datatype py_type = NoneType | BoolType | IntType | FloatType | StrType | ListType | DictType

fun type_of :: "pyval \<Rightarrow> py_type" where
  "type_of VNone = NoneType"
| "type_of (VBool _) = BoolType"
| "type_of (VInt _) = IntType"
| "type_of (VFloat _) = FloatType"
| "type_of (VStr _) = StrType"
| "type_of (VList _) = ListType"
| "type_of (VDict _) = DictType"

fun py_len :: "pyval \<Rightarrow> py_error + nat" where
  "py_len (VStr s) = Inr (length s)"
| "py_len (VList xs) = Inr (length xs)"
| "py_len (VDict kvs) = Inr (length kvs)"
| "py_len _ = Inl TypeError"

fun is_str :: "pyval \<Rightarrow> bool" where
  "is_str (VStr _) = True"
| "is_str _ = False"

fun is_number :: "pyval \<Rightarrow> bool" where
  \<comment> \<open>\<^verbatim>\<open>isinstance(v, (int, float))\<close>; \<^verbatim>\<open>bool\<close> is a subclass of \<^verbatim>\<open>int\<close>\<close>
  "is_number (VInt _) = True"
| "is_number (VFloat _) = True"
| "is_number (VBool _) = True"
| "is_number _ = False"

definition getitem :: "dataset \<Rightarrow> nat \<Rightarrow> py_error + row" where
  \<comment> \<open>\<^verbatim>\<open>dataset[i]\<close> at an index that is not negative\<close>
  "getitem ds i = (if i < length (rows ds) then Inr (rows ds ! i) else Inl IndexError)"

definition percentage_of :: "nat \<Rightarrow> nat \<Rightarrow> py_error + rat" where
  \<comment> \<open>line 55: \<^verbatim>\<open>(subset_size / original_size) * 100 if original_size > 0 else 0\<close>\<close>
  "percentage_of subset_size original_size =
     (if original_size > 0
      then (case py_truediv (int subset_size) (int original_size) of
              Inl e \<Rightarrow> Inl e
            | Inr q \<Rightarrow> Inr (q * 100))
      else Inr 0)"

definition check_features :: "dataset \<Rightarrow> dataset \<Rightarrow> event list" where
  \<comment> \<open>lines 70 to 85\<close>
  "check_features original_dataset subset_dataset =
     (let original_features = set (features original_dataset);
          subset_features = set (features subset_dataset)
      in Feature CheckingFeatures #
         (if original_features = subset_features
          then [Feature (FeaturesMatch original_features)]
          else (let missing = original_features - subset_features;
                    extra = subset_features - original_features
                in [Feature WarnFeaturesDiffer,
                    Feature (ReportOriginalFeatures original_features),
                    Feature (ReportSubsetFeatures subset_features)]
                   @ (if missing \<noteq> {} then [Feature (MissingInSubset missing)] else [])
                   @ (if extra \<noteq> {} then [Feature (ExtraInSubset extra)] else []))))"

definition check_field :: "row \<Rightarrow> row \<Rightarrow> string \<Rightarrow> event list \<times> (py_error + bool)" where
  \<comment> \<open>lines 103 to 116, the body of the loop over \<^verbatim>\<open>original_sample.keys()\<close>: what it
      prints, and the exception it raises or whether it leaves \<^verbatim>\<open>all_match\<close> as it is\<close>
  "check_field original_sample subset_sample key =
     (case map_of subset_sample key of
        None \<Rightarrow> ([], Inr True)
      | Some sub_val \<Rightarrow>
          (case map_of original_sample key of
             None \<Rightarrow> ([], Inl KeyError)
           | Some orig_val \<Rightarrow>
               (let differ = (type_of orig_val \<noteq> type_of sub_val);
                    out = (if differ then [Sample (WarnTypeMismatch key)] else [])
                in case orig_val of
                     VList xs \<Rightarrow>
                       (case py_len sub_val of
                          Inl e \<Rightarrow> (out, Inl e)
                        | Inr n \<Rightarrow>
                            if n = 0 \<and> length xs > 0
                            then (out @ [Sample (WarnEmptyList key)], Inr False)
                            else (out, Inr (\<not> differ)))
                   | _ \<Rightarrow> (out, Inr (\<not> differ)))))"

fun check_fields :: "row \<Rightarrow> row \<Rightarrow> string list \<Rightarrow> bool \<Rightarrow> event list \<times> (py_error + bool)" where
  "check_fields original_sample subset_sample [] all_match = ([], Inr all_match)"
| "check_fields original_sample subset_sample (key # keys) all_match =
     (case check_field original_sample subset_sample key of
        (out, Inl e) \<Rightarrow> (out, Inl e)
      | (out, Inr ok) \<Rightarrow>
          (case check_fields original_sample subset_sample keys (all_match \<and> ok) of
             (out', r) \<Rightarrow> (out @ out', r)))"

definition check_sample :: "dataset \<Rightarrow> dataset \<Rightarrow> event list \<times> py_error option" where
  \<comment> \<open>lines 90 to 119, the body of the first \<^verbatim>\<open>try\<close>\<close>
  "check_sample original_dataset subset_dataset =
     (case getitem original_dataset 0 of
        Inl e \<Rightarrow> ([], Some e)
      | Inr original_sample \<Rightarrow>
          (case getitem subset_dataset 0 of
             Inl e \<Rightarrow> ([], Some e)
           | Inr subset_sample \<Rightarrow>
               (let structure =
                      (if set (map fst original_sample) = set (map fst subset_sample)
                       then Sample SampleStructureMatches
                       else Sample WarnSampleStructureDiffers)
                in case check_fields original_sample subset_sample
                          (map fst original_sample) True of
                     (out, Inl e) \<Rightarrow> (structure # out, Some e)
                   | (out, Inr all_match) \<Rightarrow>
                       (structure # out @ (if all_match then [Sample SampleValid] else []),
                        None))))"

definition check_sample_guarded :: "dataset \<Rightarrow> dataset \<Rightarrow> event list" where
  \<comment> \<open>lines 89 to 121: the \<^verbatim>\<open>try\<close> and its \<^verbatim>\<open>except Exception\<close>\<close>
  "check_sample_guarded original_dataset subset_dataset =
     (case check_sample original_dataset subset_dataset of
        (out, Some e) \<Rightarrow> out @ [Sample (WarnSampleError e)]
      | (out, None) \<Rightarrow> out)"

definition show_value :: "string \<Rightarrow> pyval \<Rightarrow> py_error + event list" where
  \<comment> \<open>lines 131 to 140\<close>
  "show_value key v =
     (case v of
        VList xs \<Rightarrow>
          (case xs of
             [] \<Rightarrow> Inl IndexError
           | x # _ \<Rightarrow>
               if is_str x
               then Inr [Display (ShowStrList key (if length xs > 5 then take 5 xs else xs)
                                    (length xs > 5))]
               else if is_number x
               then Inr [Display (ShowNumList key (length xs) (take 5 xs))]
               else Inr [Display (ShowListLength key (length xs))])
      | _ \<Rightarrow> Inr [Display (ShowScalar key v)])"

fun show_fields :: "row \<Rightarrow> event list \<times> py_error option" where
  "show_fields [] = ([], None)"
| "show_fields ((key, v) # rest) =
     (case show_value key v of
        Inl e \<Rightarrow> ([], Some e)
      | Inr out \<Rightarrow> (case show_fields rest of (out', r) \<Rightarrow> (out @ out', r)))"

fun show_records :: "dataset \<Rightarrow> nat list \<Rightarrow> event list \<times> py_error option" where
  "show_records ds [] = ([], None)"
| "show_records ds (i # rest) =
     (case getitem ds i of
        Inl e \<Rightarrow> ([Display (SampleHeading (i + 1))], Some e)
      | Inr sample \<Rightarrow>
          (case show_fields sample of
             (out, Some e) \<Rightarrow> (Display (SampleHeading (i + 1)) # out, Some e)
           | (out, None) \<Rightarrow>
               (case show_records ds rest of
                  (out', r) \<Rightarrow> (Display (SampleHeading (i + 1)) # out @ out', r))))"

definition display_samples :: "dataset \<Rightarrow> int \<Rightarrow> event list" where
  \<comment> \<open>lines 124 to 142\<close>
  "display_samples subset_dataset show_samples =
     (if show_samples > 0
      then Display (DisplayingSamples show_samples) #
           (case show_records subset_dataset
                   [0 ..< nat (min show_samples (int (length (rows subset_dataset))))] of
              (out, Some e) \<Rightarrow> out @ [Display (WarnDisplayError e)]
            | (out, None) \<Rightarrow> out)
      else [])"

definition verify_subset ::
  "string \<Rightarrow> string \<Rightarrow> int \<Rightarrow> world \<Rightarrow> (py_error + bool) \<times> event list" where
  \<comment> \<open>the result is the value returned, or the exception that left the function, and
      the lines printed\<close>
  "verify_subset original_path subset_path show_samples w =
     (let out1 = [Header, Exist CheckingDirs] in
      if original_path \<notin> paths w
      then (Inr False, out1 @ [Exist (ErrOriginalNotFound original_path)])
      else
     (let out2 = out1 @ [Exist (OriginalFound original_path)] in
      if subset_path \<notin> paths w
      then (Inr False, out2 @ [Exist (ErrSubsetNotFound subset_path)])
      else
     (let out3 = out2 @ [Exist (SubsetFound subset_path), Load LoadingDatasets] in
      case load_from_disk w original_path of
        Inl e \<Rightarrow> (Inr False, out3 @ [Load (ErrLoadingOriginal e)])
      | Inr original_dataset \<Rightarrow>
     (let out4 = out3 @ [Load (OriginalLoaded (length (rows original_dataset)))] in
      case load_from_disk w subset_path of
        Inl e \<Rightarrow> (Inr False, out4 @ [Load (ErrLoadingSubset e)])
      | Inr subset_dataset \<Rightarrow>
     (let out5 = out4 @ [Load (SubsetLoaded (length (rows subset_dataset))),
                         Size SizeComparison];
          original_size = length (rows original_dataset);
          subset_size = length (rows subset_dataset) in
      case percentage_of subset_size original_size of
        Inl e \<Rightarrow> (Inl e, out5)
      | Inr percentage \<Rightarrow>
     (let out6 = out5 @ [Size (ReportOriginalSize original_size),
                         Size (ReportSubsetSize subset_size),
                         Size (ReportPercentage percentage)] in
      if subset_size > original_size
      then (Inr False, out6 @ [Size WarnSubsetLarger])
      else if subset_size = 0
      then (Inr False, out6 @ [Size ErrSubsetEmpty])
      else (Inr True,
            out6 @ (check_features original_dataset subset_dataset
                 @ ([Sample CheckingSample]
                 @ (check_sample_guarded original_dataset subset_dataset
                 @ (display_samples subset_dataset show_samples
                 @ [Summary subset_size original_size percentage])))))))))))"

definition main_verify :: "string \<Rightarrow> string \<Rightarrow> int \<Rightarrow> world \<Rightarrow> nat \<times> event list" where
  \<comment> \<open>\<^verbatim>\<open>main\<close> of the verifier: \<^verbatim>\<open>exit(0 if success else 1)\<close>, and status 1 with a
      traceback when an exception leaves \<^verbatim>\<open>verify_subset\<close>\<close>
  "main_verify original_path subset_path show_samples w =
     (case verify_subset original_path subset_path show_samples w of
        (Inr success, out) \<Rightarrow> (if success then 0 else 1, out)
      | (Inl e, out) \<Rightarrow> (1, out @ [Traceback e]))"

section \<open>The verdict as the specification words it\<close>

text \<open>
  The verifier's checks that force a failure, in the order of the specification: the
  message of the first one that fails, or \<open>None\<close> when none does.
\<close>

definition fail_condition :: "string \<Rightarrow> string \<Rightarrow> world \<Rightarrow> event option" where
  "fail_condition original_path subset_path w =
     (if original_path \<notin> paths w then Some (Exist (ErrOriginalNotFound original_path))
      else if subset_path \<notin> paths w then Some (Exist (ErrSubsetNotFound subset_path))
      else case load_from_disk w original_path of
             Inl e \<Rightarrow> Some (Load (ErrLoadingOriginal e))
           | Inr original_dataset \<Rightarrow>
               (case load_from_disk w subset_path of
                  Inl e \<Rightarrow> Some (Load (ErrLoadingSubset e))
                | Inr subset_dataset \<Rightarrow>
                    if length (rows subset_dataset) > length (rows original_dataset)
                    then Some (Size WarnSubsetLarger)
                    else if length (rows subset_dataset) = 0
                    then Some (Size ErrSubsetEmpty)
                    else None))"

fun later_check :: "event \<Rightarrow> bool" where
  \<comment> \<open>the messages of the checks that follow the size comparison\<close>
  "later_check (Feature _) = True"
| "later_check (Sample _) = True"
| "later_check (Display _) = True"
| "later_check (Summary _ _ _) = True"
| "later_check _ = False"

section \<open>Example inputs\<close>

definition exact_mul :: float_mul where
  \<comment> \<open>the float product where no rounding happens, as in \<^verbatim>\<open>10 * 0.5\<close> or \<^verbatim>\<open>10 * -0.25\<close>\<close>
  "exact_mul n p =
     (case p of
        Finite q \<Rightarrow> Finite (of_int n * q)
      | PosInf \<Rightarrow> (if n = 0 then NaN else if 0 < n then PosInf else NegInf)
      | NegInf \<Rightarrow> (if n = 0 then NaN else if 0 < n then NegInf else PosInf)
      | NaN \<Rightarrow> NaN)"

definition example_sampler :: sampler where
  \<comment> \<open>a sampler for the examples: \<open>k\<close> of the \<open>a\<close> indices in a row, counted down from
      where the seed points; a negative seed, a negative size and a size beyond \<open>a\<close>
      are rejected\<close>
  "example_sampler seed a k replace =
     (if 0 \<le> seed \<and> 0 \<le> k \<and> k \<le> int a
      then Inr (map (\<lambda>j. (nat seed + j) mod a) (rev [0 ..< nat k]))
      else Inl ValueError)"

definition pair_record :: "int \<Rightarrow> row" where
  "pair_record i = [(''src'', VList [VInt i, VInt (i + 1)]), (''tgt'', VStr ''t'')]"

definition example_dataset :: dataset where
  "example_dataset =
     \<lparr>features = [''src'', ''tgt''],
      rows = [pair_record 0, pair_record 1, pair_record 2, pair_record 3]\<rparr>"

definition empty_dataset :: dataset where
  "empty_dataset = \<lparr>features = [''src'', ''tgt''], rows = []\<rparr>"

definition ten_records :: dataset where
  "ten_records =
     \<lparr>features = [''src'', ''tgt''],
      rows = map pair_record [0, 1, 2, 3, 4, 5, 6, 7, 8, 9]\<rparr>"

definition sub_dataset :: dataset where
  "sub_dataset = \<lparr>features = [''src'', ''tgt''], rows = [pair_record 1, pair_record 3]\<rparr>"

definition extra_dataset :: dataset where
  \<comment> \<open>one field more than \<open>example_dataset\<close>\<close>
  "extra_dataset =
     \<lparr>features = [''src'', ''tgt'', ''extra''],
      rows = [pair_record 1 @ [(''extra'', VNone)]]\<rparr>"

definition lists_record :: row where
  "lists_record = [(''a'', VList [VInt 1]), (''b'', VList [VInt 2])]"

definition odd_record :: row where
  \<comment> \<open>an empty list at \<^verbatim>\<open>b\<close>, and an int at \<^verbatim>\<open>a\<close> where \<open>lists_record\<close> has a list\<close>
  "odd_record = [(''b'', VList []), (''a'', VInt 5)]"

definition lists_dataset :: dataset where
  "lists_dataset = \<lparr>features = [''a'', ''b''], rows = [lists_record]\<rparr>"

definition odd_dataset :: dataset where
  "odd_dataset = \<lparr>features = [''a'', ''b''], rows = [odd_record]\<rparr>"

definition example_world :: world where
  \<comment> \<open>the path \<^verbatim>\<open>corrupt\<close> exists and holds nothing that loads\<close>
  "example_world =
     \<lparr>paths = {''orig'', ''sub'', ''extra'', ''lists'', ''odd'', ''empty'', ''ten'', ''corrupt''},
      store =
        [''orig'' \<mapsto> example_dataset,
         ''sub'' \<mapsto> sub_dataset,
         ''extra'' \<mapsto> extra_dataset,
         ''lists'' \<mapsto> lists_dataset,
         ''odd'' \<mapsto> odd_dataset,
         ''empty'' \<mapsto> empty_dataset,
         ''ten'' \<mapsto> ten_records],
      console = [],
      mkdir_error = Map.empty,
      save_error = Map.empty\<rparr>"

definition other_world :: world where
  \<comment> \<open>holds the same dataset at \<^verbatim>\<open>orig\<close> as \<open>example_world\<close>, and differs elsewhere\<close>
  "other_world =
     \<lparr>paths = {''orig'', ''out''},
      store = [''orig'' \<mapsto> example_dataset, ''out'' \<mapsto> empty_dataset],
      console = [Header],
      mkdir_error = Map.empty,
      save_error = [''locked'' \<mapsto> PermissionError]\<rparr>"

section \<open>Auxiliary facts\<close>

lemma paths_emit: "paths (emit e w) = paths w"
  by (simp add: emit_def)

lemma store_emit: "store (emit e w) = store w"
  by (simp add: emit_def)

lemma console_emit: "console (emit e w) = console w @ [e]"
  by (simp add: emit_def)

lemma load_from_disk_emit: "load_from_disk (emit e w) path = load_from_disk w path"
  by (simp add: load_from_disk_def emit_def)

lemma mkdir_error_emit: "mkdir_error (emit e w) = mkdir_error w"
  by (simp add: emit_def)

lemma save_error_emit: "save_error (emit e w) = save_error w"
  by (simp add: emit_def)

lemmas world_simps =
  paths_emit store_emit console_emit load_from_disk_emit mkdir_error_emit save_error_emit

lemma makedirs_succeeds:
  "path \<noteq> [] \<Longrightarrow> mkdir_error w path = None \<Longrightarrow>
   makedirs path w = Inr (w\<lparr>paths := insert path (paths w)\<rparr>)"
  by (simp add: makedirs_def)

lemma save_to_disk_succeeds:
  "path \<noteq> origin \<Longrightarrow> save_error w path = None \<Longrightarrow>
   save_to_disk ds origin path w =
     Inr (w\<lparr>paths := insert path (paths w),
            store := (store w)(path := if rows ds = [] then None else Some ds)\<rparr>)"
  by (simp add: save_to_disk_def)

lemma select_in_range:
  "list_all (\<lambda>i. i < length (rows ds)) indices \<Longrightarrow>
   select ds indices = Inr (ds\<lparr>rows := map (\<lambda>i. rows ds ! i) indices\<rparr>)"
  by (simp add: select_def)

lemma list_all_sort: "list_all P (sort xs) = list_all P xs"
  by (simp add: list_all_iff)

lemma sort_empty: "sort xs = [] \<longleftrightarrow> xs = []"
  using length_sort [of "\<lambda>x. x" xs] by (auto simp del: length_sort)

text \<open>
  The run of \<open>create_subset\<close> when every step succeeds: the world it leaves, with the
  nine lines it prints.
\<close>

lemma create_subset_completes:
  assumes "load_from_disk w dataset_path = Inr ds"
    and "resolve_subset_size fmul (length (rows ds)) subset_size subset_percentage = Inr (k, msg)"
    and "choice random_seed (length (rows ds)) k False = Inr drawn"
    and "list_all (\<lambda>i. i < length (rows ds)) drawn"
    and "output_path \<noteq> dataset_path"
    and "mkdir_error w output_path = None"
    and "save_error w output_path = None"
    and "output_path \<noteq> []"
  shows "create_subset choice fmul dataset_path output_path subset_size subset_percentage
           random_seed w =
         (None,
          w\<lparr>paths := insert output_path (paths w),
            store := (store w)
              (output_path :=
                 if drawn = [] then None
                 else Some (ds\<lparr>rows := map (\<lambda>i. rows ds ! i) (sort drawn)\<rparr>)),
            console := console w @
              [Create (LoadingDataset dataset_path),
               Create (OriginalSize (length (rows ds))),
               msg,
               Create (SelectedIndices (length drawn)),
               Create SelectingSamples,
               Create (SavingTo output_path),
               Create SubsetSaved,
               Create (SavedSamples (length drawn)),
               Create (SavedLocation output_path)]\<rparr>)"
proof -
  let ?w4 = "emit (Create SelectingSamples)
               (emit (Create (SelectedIndices (length (sort drawn))))
                  (emit msg (emit (Create (OriginalSize (length (rows ds))))
                     (emit (Create (LoadingDataset dataset_path)) w))))"
  have mk: "makedirs output_path ?w4 = Inr (?w4\<lparr>paths := insert output_path (paths ?w4)\<rparr>)"
    using assms(6,8) by (intro makedirs_succeeds) (simp_all add: world_simps)
  let ?w6 = "emit (Create (SavingTo output_path))
               (?w4\<lparr>paths := insert output_path (paths ?w4)\<rparr>)"
  let ?sub = "ds\<lparr>rows := map (\<lambda>i. rows ds ! i) (sort drawn)\<rparr>"
  have sv: "save_to_disk ?sub dataset_path output_path ?w6 =
      Inr (?w6\<lparr>paths := insert output_path (paths ?w6),
             store := (store ?w6)(output_path := if rows ?sub = [] then None else Some ?sub)\<rparr>)"
    using assms(5,7) by (intro save_to_disk_succeeds) (simp_all add: emit_def)
  have sel: "select ds (sort drawn) = Inr ?sub"
    using assms(4) by (simp add: select_in_range list_all_sort)
  show ?thesis
    using assms(1,2,3) sel mk sv
    by (simp add: create_subset_def Let_def world_simps) (simp add: emit_def sort_empty)
qed

lemma create_subset_completes_parts:
  assumes "load_from_disk w dataset_path = Inr ds"
    and "resolve_subset_size fmul (length (rows ds)) subset_size subset_percentage = Inr (k, msg)"
    and "choice random_seed (length (rows ds)) k False = Inr drawn"
    and "list_all (\<lambda>i. i < length (rows ds)) drawn"
    and "output_path \<noteq> dataset_path"
    and "mkdir_error w output_path = None"
    and "save_error w output_path = None"
    and "output_path \<noteq> []"
  shows "fst (create_subset choice fmul dataset_path output_path subset_size
                subset_percentage random_seed w) = None"
    and "store (snd (create_subset choice fmul dataset_path output_path subset_size
                subset_percentage random_seed w)) output_path =
           (if drawn = [] then None
            else Some \<lparr>features = features ds, rows = map (\<lambda>i. rows ds ! i) (sort drawn)\<rparr>)"
    and "console (snd (create_subset choice fmul dataset_path output_path subset_size
                subset_percentage random_seed w)) =
           console w @
              [Create (LoadingDataset dataset_path),
               Create (OriginalSize (length (rows ds))),
               msg,
               Create (SelectedIndices (length drawn)),
               Create SelectingSamples,
               Create (SavingTo output_path),
               Create SubsetSaved,
               Create (SavedSamples (length drawn)),
               Create (SavedLocation output_path)]"
proof -
  note run = create_subset_completes [where choice = choice and random_seed = random_seed,
      OF assms]
  have same: "ds\<lparr>rows := xs\<rparr> = \<lparr>features = features ds, rows = xs\<rparr>" for xs
    by (cases ds) simp
  show "fst (create_subset choice fmul dataset_path output_path subset_size
                subset_percentage random_seed w) = None"
    unfolding run by simp
  show "store (snd (create_subset choice fmul dataset_path output_path subset_size
                subset_percentage random_seed w)) output_path =
           (if drawn = [] then None
            else Some \<lparr>features = features ds, rows = map (\<lambda>i. rows ds ! i) (sort drawn)\<rparr>)"
    unfolding run same by simp
  show "console (snd (create_subset choice fmul dataset_path output_path subset_size
                subset_percentage random_seed w)) =
           console w @
              [Create (LoadingDataset dataset_path),
               Create (OriginalSize (length (rows ds))),
               msg,
               Create (SelectedIndices (length drawn)),
               Create SelectingSamples,
               Create (SavingTo output_path),
               Create SubsetSaved,
               Create (SavedSamples (length drawn)),
               Create (SavedLocation output_path)]"
    unfolding run by simp
qed

lemma makedirs_console: "makedirs path w = Inr w' \<Longrightarrow> console w' = console w"
  by (auto simp: makedirs_def split: option.splits if_splits)

lemma save_to_disk_console:
  "save_to_disk ds origin path w = Inr w' \<Longrightarrow> console w' = console w"
  by (auto simp: save_to_disk_def split: option.splits if_splits)

text \<open>Whatever happens after the size is resolved, the run has printed it by then.\<close>

lemma create_subset_prints_size:
  assumes "load_from_disk w dataset_path = Inr ds"
    and "resolve_subset_size fmul (length (rows ds)) subset_size subset_percentage = Inr (k, msg)"
  shows "\<exists>rest. console (snd (create_subset choice fmul dataset_path output_path subset_size
                    subset_percentage random_seed w)) =
           console w @ [Create (LoadingDataset dataset_path),
                        Create (OriginalSize (length (rows ds))), msg] @ rest"
proof (cases "choice random_seed (length (rows ds)) k False")
  case (Inl e)
  with assms show ?thesis
    by (simp add: create_subset_def Let_def world_simps)
next
  case (Inr drawn)
  note draw = Inr
  let ?w4 = "emit (Create SelectingSamples)
               (emit (Create (SelectedIndices (length (sort drawn))))
                  (emit msg (emit (Create (OriginalSize (length (rows ds))))
                     (emit (Create (LoadingDataset dataset_path)) w))))"
  show ?thesis
  proof (cases "select ds (sort drawn)")
    case (Inl e)
    with assms draw show ?thesis
      by (simp add: create_subset_def Let_def world_simps)
  next
    case (Inr subset_ds)
    note sel = Inr
    show ?thesis
    proof (cases "makedirs output_path ?w4")
      case (Inl e)
      with assms draw sel show ?thesis
        by (simp add: create_subset_def Let_def world_simps)
    next
      case (Inr w5)
      note mk = Inr
      have c5: "console w5 = console ?w4"
        using mk by (rule makedirs_console)
      show ?thesis
      proof (cases "save_to_disk subset_ds dataset_path output_path
                      (emit (Create (SavingTo output_path)) w5)")
        case (Inl e)
        with assms draw sel mk c5 show ?thesis
          by (simp add: create_subset_def Let_def world_simps)
      next
        case (Inr w7)
        then have "console w7 = console (emit (Create (SavingTo output_path)) w5)"
          by (rule save_to_disk_console)
        with assms draw sel mk c5 Inr show ?thesis
          by (simp add: create_subset_def Let_def world_simps)
      qed
    qed
  qed
qed

text \<open>A dataset cannot be saved onto the path it was loaded from.\<close>

lemma create_subset_onto_input:
  assumes "load_from_disk w dataset_path = Inr ds"
    and "resolve_subset_size fmul (length (rows ds)) subset_size subset_percentage = Inr (k, msg)"
    and "choice random_seed (length (rows ds)) k False = Inr drawn"
    and "list_all (\<lambda>i. i < length (rows ds)) drawn"
    and "mkdir_error w dataset_path = None"
    and "dataset_path \<noteq> []"
  shows "fst (create_subset choice fmul dataset_path dataset_path subset_size subset_percentage
           random_seed w) = Some PermissionError
       \<and> store (snd (create_subset choice fmul dataset_path dataset_path subset_size
           subset_percentage random_seed w)) = store w"
  using assms
  by (simp add: create_subset_def Let_def world_simps select_in_range list_all_sort
      makedirs_def save_to_disk_def)

lemma check_features_events: "e \<in> set (check_features a b) \<Longrightarrow> \<exists>m. e = Feature m"
  by (auto simp: check_features_def Let_def split: if_splits)

lemma check_field_events:
  "check_field a b key = (out, r) \<Longrightarrow> e \<in> set out \<Longrightarrow>
   e = Sample (WarnTypeMismatch key) \<or> e = Sample (WarnEmptyList key)"
  by (auto simp: check_field_def Let_def split: option.splits pyval.splits sum.splits if_splits)

lemma check_fields_events:
  "check_fields a b keys all_match = (out, r) \<Longrightarrow> e \<in> set out \<Longrightarrow>
   \<exists>key. e = Sample (WarnTypeMismatch key) \<or> e = Sample (WarnEmptyList key)"
proof (induction keys arbitrary: all_match out r)
  case Nil
  then show ?case by simp
next
  case (Cons key keys)
  obtain out1 r1 where f: "check_field a b key = (out1, r1)"
    by (cases "check_field a b key")
  show ?case
  proof (cases r1)
    case (Inl err)
    with Cons.prems f show ?thesis
      by (auto dest: check_field_events)
  next
    case (Inr ok)
    obtain out2 r2 where g: "check_fields a b keys (all_match \<and> ok) = (out2, r2)"
      by (cases "check_fields a b keys (all_match \<and> ok)")
    from Cons.prems f Inr g have "e \<in> set out1 \<or> e \<in> set out2"
      by auto
    then show ?thesis
      using check_field_events [OF f] Cons.IH [OF g] by blast
  qed
qed

lemma check_sample_events:
  assumes "e \<in> set (fst (check_sample a b))"
  shows "\<exists>m. e = Sample m \<and> (\<forall>err. m \<noteq> WarnSampleError err)"
proof -
  have fields: "\<And>x y keys out r. check_fields x y keys True = (out, r) \<Longrightarrow> e \<in> set out \<Longrightarrow>
      \<exists>m. e = Sample m \<and> (\<forall>err. m \<noteq> WarnSampleError err)"
    by (drule (1) check_fields_events) auto
  from assms show ?thesis
    by (auto simp: check_sample_def Let_def split: sum.splits prod.splits if_splits
        dest: fields)
qed

lemma show_value_events:
  "show_value key v = Inr out \<Longrightarrow> e \<in> set out \<Longrightarrow>
   \<exists>m. e = Display m \<and> (\<forall>err. m \<noteq> WarnDisplayError err)"
  by (auto simp: show_value_def split: pyval.splits list.splits if_splits)

lemma show_value_error: "show_value key v = Inl err \<Longrightarrow> err = IndexError"
  by (auto simp: show_value_def split: pyval.splits list.splits if_splits)

lemma show_fields_events:
  "e \<in> set (fst (show_fields r)) \<Longrightarrow> \<exists>m. e = Display m \<and> (\<forall>err. m \<noteq> WarnDisplayError err)"
proof (induction r rule: show_fields.induct)
  case 1
  then show ?case by simp
next
  case (2 key v rest)
  then show ?case
    by (auto split: sum.splits prod.splits dest: show_value_events)
qed

lemma show_fields_error: "snd (show_fields r) = Some err \<Longrightarrow> err = IndexError"
  by (induction r rule: show_fields.induct)
     (auto split: sum.splits prod.splits dest: show_value_error)

lemma show_fields_empty_list:
  "(key, VList []) \<in> set r \<Longrightarrow> snd (show_fields r) = Some IndexError"
proof (induction r rule: show_fields.induct)
  case 1
  then show ?case by simp
next
  case (2 k v rest)
  show ?case
  proof (cases "show_value k v")
    case (Inl err)
    then show ?thesis by (simp add: show_value_error)
  next
    case (Inr out)
    with 2 have "(key, VList []) \<in> set rest"
      by (auto simp: show_value_def)
    with 2 Inr show ?thesis
      by (auto split: prod.splits)
  qed
qed

lemma show_fields_events_rel:
  "show_fields r = (out, res) \<Longrightarrow> e \<in> set out \<Longrightarrow>
   \<exists>m. e = Display m \<and> (\<forall>err. m \<noteq> WarnDisplayError err)"
  using show_fields_events [of e r] by simp

lemma show_records_events:
  "e \<in> set (fst (show_records ds is)) \<Longrightarrow>
   \<exists>m. e = Display m \<and> (\<forall>err. m \<noteq> WarnDisplayError err)"
proof (induction "is")
  case Nil
  then show ?case by simp
next
  case (Cons i rest)
  then show ?case
    by (auto split: sum.splits prod.splits option.splits dest: show_fields_events_rel)
qed

lemma show_records_error: "snd (show_records ds is) = Some err \<Longrightarrow> err = IndexError"
proof (induction "is")
  case Nil
  then show ?case by simp
next
  case (Cons i rest)
  then show ?case
    using show_fields_error [of "rows ds ! i" err]
    by (auto simp: getitem_def split: sum.splits prod.splits option.splits if_splits)
qed

lemma show_records_empty_list:
  assumes "i \<in> set is" and "i < length (rows ds)" and "(key, VList []) \<in> set (rows ds ! i)"
  shows "snd (show_records ds is) = Some IndexError"
proof -
  have "snd (show_records ds is) \<noteq> None"
    using assms(1)
  proof (induction "is")
    case Nil
    then show ?case by simp
  next
    case (Cons j rest)
    show ?case
    proof (cases "j = i")
      case True
      with assms(2,3) show ?thesis
        using show_fields_empty_list [of key "rows ds ! i"]
        by (auto simp: getitem_def split: prod.splits option.splits)
    next
      case False
      with Cons have "snd (show_records ds rest) \<noteq> None"
        by simp
      then show ?thesis
        by (auto split: sum.splits prod.splits option.splits)
    qed
  qed
  then show ?thesis
    using show_records_error [of ds "is"] by auto
qed

lemma display_samples_events:
  assumes "e \<in> set (display_samples ds n)"
  shows "\<exists>m. e = Display m"
proof -
  let ?is = "[0 ..< nat (min n (int (length (rows ds))))]"
  obtain out r where run: "show_records ds ?is = (out, r)"
    by (cases "show_records ds ?is")
  have "e \<in> set out \<Longrightarrow> \<exists>m. e = Display m"
    using show_records_events [of e ds ?is] run by auto
  with run assms show ?thesis
    by (cases r) (auto simp: display_samples_def split: if_splits)
qed

lemma display_samples_warning:
  "Display (WarnDisplayError err) \<in> set (display_samples ds n) \<longleftrightarrow>
   0 < n \<and> snd (show_records ds [0 ..< nat (min n (int (length (rows ds))))]) = Some err"
proof -
  let ?is = "[0 ..< nat (min n (int (length (rows ds))))]"
  obtain out r where run: "show_records ds ?is = (out, r)"
    by (cases "show_records ds ?is")
  have "Display (WarnDisplayError err) \<notin> set out"
    using show_records_events [of "Display (WarnDisplayError err)" ds ?is] run by auto
  with run show ?thesis
    by (cases r) (auto simp: display_samples_def)
qed

lemma percentage_of_value:
  "percentage_of a b = Inr (if b > 0 then of_nat a / of_nat b * 100 else 0)"
  by (simp add: percentage_of_def py_truediv_def)

lemma verify_subset_passes:
  assumes "original_path \<in> paths w" and "subset_path \<in> paths w"
    and "load_from_disk w original_path = Inr a"
    and "load_from_disk w subset_path = Inr b"
    and "0 < length (rows b)" and "length (rows b) \<le> length (rows a)"
  shows "verify_subset original_path subset_path show_samples w =
    (Inr True,
     [Header, Exist CheckingDirs, Exist (OriginalFound original_path),
      Exist (SubsetFound subset_path), Load LoadingDatasets,
      Load (OriginalLoaded (length (rows a))), Load (SubsetLoaded (length (rows b))),
      Size SizeComparison, Size (ReportOriginalSize (length (rows a))),
      Size (ReportSubsetSize (length (rows b))),
      Size (ReportPercentage (of_nat (length (rows b)) / of_nat (length (rows a)) * 100))]
     @ check_features a b
     @ [Sample CheckingSample]
     @ check_sample_guarded a b
     @ display_samples b show_samples
     @ [Summary (length (rows b)) (length (rows a))
          (of_nat (length (rows b)) / of_nat (length (rows a)) * 100)])"
  using assms by (simp add: verify_subset_def percentage_of_value Let_def)

lemma verify_subset_fails:
  assumes "fail_condition original_path subset_path w = Some e"
  shows "fst (verify_subset original_path subset_path show_samples w) = Inr False"
    and "last (snd (verify_subset original_path subset_path show_samples w)) = e"
    and "\<not> list_ex later_check (snd (verify_subset original_path subset_path show_samples w))"
  using assms
  by (auto simp: verify_subset_def fail_condition_def percentage_of_value Let_def
      split: if_splits sum.splits)

lemma sorted_distinct_full_range:
  assumes "sorted xs" and "distinct xs" and "list_all (\<lambda>i. i < n) xs" and "length xs = n"
  shows "xs = [0 ..< n]"
proof -
  have sub: "set xs \<subseteq> {..< n}"
    using assms(3) by (auto simp: list_all_iff)
  have "card (set xs) = n"
    using assms(2,4) by (simp add: distinct_card)
  then have "set xs = {..< n}"
    using sub by (simp add: card_subset_eq)
  then have "set xs = set [0 ..< n]"
    by (simp add: atLeast_upt)
  with assms(1,2) show ?thesis
    by (intro sorted_distinct_set_unique) simp_all
qed


lemma create_subset_draw_rejected:
  assumes "load_from_disk w dataset_path = Inr ds"
    and "resolve_subset_size fmul (length (rows ds)) subset_size subset_percentage = Inr (k, msg)"
    and "choice random_seed (length (rows ds)) k False = Inl e"
  shows "create_subset choice fmul dataset_path output_path subset_size subset_percentage
           random_seed w =
         (Some e, emit msg (emit (Create (OriginalSize (length (rows ds))))
                     (emit (Create (LoadingDataset dataset_path)) w)))"
  using assms by (simp add: create_subset_def Let_def world_simps)

lemma check_sample_guarded_events:
  assumes "e \<in> set (check_sample_guarded a b)"
  shows "\<exists>m. e = Sample m"
proof -
  obtain out r where run: "check_sample a b = (out, r)"
    by (cases "check_sample a b")
  have "e \<in> set out \<Longrightarrow> \<exists>m. e = Sample m"
    using check_sample_events [of e a b] run by auto
  with run assms show ?thesis
    by (cases r) (auto simp: check_sample_guarded_def)
qed

lemma check_sample_guarded_warning:
  "Sample (WarnSampleError err) \<in> set (check_sample_guarded a b)
   \<longleftrightarrow> snd (check_sample a b) = Some err"
proof -
  obtain out r where run: "check_sample a b = (out, r)"
    by (cases "check_sample a b")
  have "Sample (WarnSampleError err) \<notin> set out"
    using check_sample_events [of "Sample (WarnSampleError err)" a b] run by auto
  with run show ?thesis
    by (cases r) (auto simp: check_sample_guarded_def)
qed

section \<open>The claims about the subset creator\<close>

text \<open>
  C1. Let the dataset at the input path load, let the size resolve to \<open>k\<close> with
  \<open>0 < k\<close>, and let the draw of the sampler be a sample without replacement: \<open>k\<close>
  indices of the dataset, no two equal (what \<^verbatim>\<open>choice\<close> with \<^verbatim>\<open>replace=False\<close> returns
  for \<open>0 < k \<le> total\<close>). Let the output path be another path than the input path, not
  empty, at which making the directory and saving do not fail. Then \<open>create_subset\<close> completes
  and the dataset it saves at the output path has exactly \<open>k\<close> records; they are the
  records of the original at a list of indices that has the drawn indices as its
  elements, has no duplicates and is in ascending order, so each record of the subset
  is a record of the original.
\<close>

theorem create_subset_selection:
  assumes "load_from_disk w dataset_path = Inr ds"
    and "resolve_subset_size fmul (length (rows ds)) subset_size subset_percentage = Inr (k, msg)"
    and "0 < k"
    and "choice random_seed (length (rows ds)) k False = Inr drawn"
    and "length drawn = nat k"
    and "distinct drawn"
    and "list_all (\<lambda>i. i < length (rows ds)) drawn"
    and "output_path \<noteq> dataset_path"
    and "mkdir_error w output_path = None"
    and "save_error w output_path = None"
    and "output_path \<noteq> []"
  shows "\<exists>w' sub indices.
           create_subset choice fmul dataset_path output_path subset_size subset_percentage
             random_seed w = (None, w')
         \<and> store w' output_path = Some sub
         \<and> length (rows sub) = nat k
         \<and> rows sub = map (\<lambda>i. rows ds ! i) indices
         \<and> set indices = set drawn
         \<and> length indices = nat k
         \<and> distinct indices
         \<and> sorted indices
         \<and> list_all (\<lambda>i. i < length (rows ds)) indices
         \<and> set (rows sub) \<subseteq> set (rows ds)
         \<and> features sub = features ds"
proof -
  let ?run = "create_subset choice fmul dataset_path output_path subset_size
      subset_percentage random_seed w"
  let ?indices = "sort drawn"
  let ?sub = "\<lparr>features = features ds, rows = map (\<lambda>i. rows ds ! i) ?indices\<rparr>"
  note parts = create_subset_completes_parts [where choice = choice
      and random_seed = random_seed,
      OF assms(1) assms(2) assms(4) assms(7) assms(8) assms(9) assms(10) assms(11)]
  have "drawn \<noteq> []"
    using assms(3,5) by auto
  with parts(2) have saved: "store (snd ?run) output_path = Some ?sub"
    by simp
  from parts(1) have run: "?run = (None, snd ?run)"
    by (simp add: prod_eq_iff)
  have in_range: "list_all (\<lambda>i. i < length (rows ds)) ?indices"
    using assms(7) by (simp add: list_all_sort)
  then have inside: "set (rows ?sub) \<subseteq> set (rows ds)"
    by (auto simp: list_all_iff)
  have "?run = (None, snd ?run)
         \<and> store (snd ?run) output_path = Some ?sub
         \<and> length (rows ?sub) = nat k
         \<and> rows ?sub = map (\<lambda>i. rows ds ! i) ?indices
         \<and> set ?indices = set drawn
         \<and> length ?indices = nat k
         \<and> distinct ?indices
         \<and> sorted ?indices
         \<and> list_all (\<lambda>i. i < length (rows ds)) ?indices
         \<and> set (rows ?sub) \<subseteq> set (rows ds)
         \<and> features ?sub = features ds"
    using run saved in_range inside assms(5) assms(6) by simp
  then show ?thesis
    by blast
qed

theorem create_subset_selection_witness:
  "\<exists>w' sub indices.
     create_subset example_sampler exact_mul ''orig'' ''out'' (Some 2) None 42 example_world
       = (None, w')
   \<and> store w' ''out'' = Some sub
   \<and> length (rows sub) = nat 2
   \<and> rows sub = map (\<lambda>i. rows example_dataset ! i) indices
   \<and> set indices = set [3, 2]
   \<and> length indices = nat 2
   \<and> distinct indices
   \<and> sorted indices
   \<and> list_all (\<lambda>i. i < length (rows example_dataset)) indices
   \<and> set (rows sub) \<subseteq> set (rows example_dataset)
   \<and> features sub = features example_dataset"
proof -
  have len: "length (rows example_dataset) = 4"
    by (simp add: example_dataset_def)
  have load: "load_from_disk example_world ''orig'' = Inr example_dataset"
    by (simp add: load_from_disk_def example_world_def)
  have size: "resolve_subset_size exact_mul (length (rows example_dataset)) (Some 2) None
      = Inr (2, Create (CreatingCount 2 4))"
    by (simp add: len resolve_subset_size_def py_truediv_def Let_def)
  have draw: "example_sampler 42 (length (rows example_dataset)) 2 False = Inr [3, 2]"
    by (simp add: len example_sampler_def upt_rec)
  have fs: "mkdir_error example_world ''out'' = None" "save_error example_world ''out'' = None"
    by (simp_all add: example_world_def)
  show ?thesis
    by (rule create_subset_selection [where choice = example_sampler and random_seed = 42,
          OF load size _ draw _ _ _ _ fs]) (simp_all add: len)
qed

text \<open>
  C3. The creator's \<^verbatim>\<open>main\<close> ends in \<^verbatim>\<open>parser.error\<close>, with exit status 2, when
  neither \<^verbatim>\<open>--size\<close> nor \<^verbatim>\<open>--percentage\<close> is given and when both are given. The world
  is then as it was but for the usage message: no path is created, the store is not
  written, and nothing of \<open>create_subset\<close> has run, so no dataset was loaded (its
  first message, printed before it loads, is not on the console).
\<close>

theorem main_create_usage_errors:
  "main_create choice fmul
     \<lparr>input_arg = inp, output_arg = out, size_arg = None, percentage_arg = None,
      seed_arg = s\<rparr> w
   = (2, w\<lparr>console := console w
            @ [ParserError ''Either --size or --percentage must be provided'']\<rparr>)
   \<and> main_create choice fmul
     \<lparr>input_arg = inp, output_arg = out, size_arg = Some n, percentage_arg = Some p,
      seed_arg = s\<rparr> w
   = (2, w\<lparr>console := console w
            @ [ParserError ''Provide either --size OR --percentage, not both'']\<rparr>)"
  by (simp add: main_create_def emit_def)

text \<open>
  Called directly, \<open>create_subset\<close> itself makes its own check only after it has
  loaded the dataset, and takes the count when both are given.
\<close>

lemma create_subset_neither:
  assumes "load_from_disk w dataset_path = Inr ds"
  shows "create_subset choice fmul dataset_path output_path None None random_seed w =
         (Some ValueError, emit (Create (OriginalSize (length (rows ds))))
                             (emit (Create (LoadingDataset dataset_path)) w))"
  using assms by (simp add: create_subset_def resolve_subset_size_def Let_def world_simps)

lemma resolve_subset_size_both:
  "resolve_subset_size fmul total_size (Some n) (Some p) =
   resolve_subset_size fmul total_size (Some n) None"
  by (simp add: resolve_subset_size_def)

lemma create_subset_both:
  "create_subset choice fmul dataset_path output_path (Some n) (Some p) random_seed w =
   create_subset choice fmul dataset_path output_path (Some n) None random_seed w"
  unfolding create_subset_def resolve_subset_size_both by (rule refl)

text \<open>
  What \<open>create_subset\<close> does when the float product is an infinity or a NaN:
  \<^verbatim>\<open>int\<close> raises, before anything is drawn.
\<close>

lemma create_subset_percentage_not_finite:
  assumes "load_from_disk w dataset_path = Inr ds"
    and "\<And>x. fmul (int (length (rows ds))) p \<noteq> Finite x"
  shows "fst (create_subset choice fmul dataset_path output_path None (Some p) random_seed w)
           = Some (if fmul (int (length (rows ds))) p = NaN then ValueError else OverflowError)
       \<and> paths (snd (create_subset choice fmul dataset_path output_path None (Some p)
           random_seed w)) = paths w
       \<and> store (snd (create_subset choice fmul dataset_path output_path None (Some p)
           random_seed w)) = store w"
proof (cases "fmul (int (length (rows ds))) p")
  case (Finite q)
  with assms(2) show ?thesis
    by blast
qed (use assms(1) in \<open>simp_all add: create_subset_def resolve_subset_size_def py_int_def
      Let_def world_simps\<close>)

text \<open>
  C4, as the code has it. Given a percentage \<open>p\<close> and no count, with a float product
  \<^verbatim>\<open>total_size * subset_percentage\<close> that is finite, of value \<open>x\<close>, the size is
  \<^verbatim>\<open>int\<close> of it: \<open>x\<close> truncated toward zero, which is the floor of \<open>x\<close> when \<open>x\<close> is not
  negative and its ceiling otherwise. That size is what the run prints after the two
  lines about the dataset, and what it asks the sampler for: an error of the sampler
  at that size is the error of the run, and a draw of that many indices of the
  dataset, when the size is positive and the output path (not empty, not the input
  path) can be made and saved to, gives a saved subset of that many records.
\<close>

theorem create_subset_percentage_size:
  assumes "load_from_disk w dataset_path = Inr ds"
    and "fmul (int (length (rows ds))) p = Finite x"
  shows "take 3 (drop (length (console w))
           (console (snd (create_subset choice fmul dataset_path output_path None (Some p)
                            random_seed w))))
         = [Create (LoadingDataset dataset_path),
            Create (OriginalSize (length (rows ds))),
            Create (CreatingPct (if 0 \<le> x then \<lfloor>x\<rfloor> else \<lceil>x\<rceil>) p)]
       \<and> (choice random_seed (length (rows ds)) (if 0 \<le> x then \<lfloor>x\<rfloor> else \<lceil>x\<rceil>) False = Inl e
            \<longrightarrow> fst (create_subset choice fmul dataset_path output_path None (Some p)
                       random_seed w) = Some e)
       \<and> (0 < \<lfloor>x\<rfloor>
            \<and> choice random_seed (length (rows ds)) \<lfloor>x\<rfloor> False = Inr drawn
            \<and> length drawn = nat \<lfloor>x\<rfloor>
            \<and> list_all (\<lambda>i. i < length (rows ds)) drawn
            \<and> output_path \<noteq> dataset_path \<and> output_path \<noteq> []
            \<and> mkdir_error w output_path = None \<and> save_error w output_path = None
            \<longrightarrow> (\<exists>w' sub. create_subset choice fmul dataset_path output_path None (Some p)
                             random_seed w = (None, w')
                         \<and> store w' output_path = Some sub
                         \<and> length (rows sub) = nat \<lfloor>x\<rfloor>))"
proof -
  let ?k = "if 0 \<le> x then \<lfloor>x\<rfloor> else \<lceil>x\<rceil>"
  let ?run = "create_subset choice fmul dataset_path output_path None (Some p) random_seed w"
  have size: "resolve_subset_size fmul (length (rows ds)) None (Some p)
      = Inr (?k, Create (CreatingPct ?k p))"
    using assms(2) by (simp add: resolve_subset_size_def py_int_def)
  have printed: "take 3 (drop (length (console w)) (console (snd ?run)))
         = [Create (LoadingDataset dataset_path),
            Create (OriginalSize (length (rows ds))),
            Create (CreatingPct ?k p)]"
    using create_subset_prints_size [where choice = choice and random_seed = random_seed
        and output_path = output_path, OF assms(1) size]
    by auto
  have rejected: "fst ?run = Some e"
    if "choice random_seed (length (rows ds)) ?k False = Inl e"
    using create_subset_draw_rejected [where choice = choice and random_seed = random_seed
        and output_path = output_path, OF assms(1) size that]
    by simp
  have saved: "\<exists>w' sub. ?run = (None, w') \<and> store w' output_path = Some sub
                 \<and> length (rows sub) = nat \<lfloor>x\<rfloor>"
    if h: "0 < \<lfloor>x\<rfloor>
            \<and> choice random_seed (length (rows ds)) \<lfloor>x\<rfloor> False = Inr drawn
            \<and> length drawn = nat \<lfloor>x\<rfloor>
            \<and> list_all (\<lambda>i. i < length (rows ds)) drawn
            \<and> output_path \<noteq> dataset_path \<and> output_path \<noteq> []
            \<and> mkdir_error w output_path = None \<and> save_error w output_path = None"
  proof -
    from h have pos: "0 \<le> x"
      by (simp add: less_floor_iff)
    with size have size': "resolve_subset_size fmul (length (rows ds)) None (Some p)
        = Inr (\<lfloor>x\<rfloor>, Create (CreatingPct \<lfloor>x\<rfloor> p))"
      by simp
    from h have some: "drawn \<noteq> []"
      by auto
    from h have rest: "list_all (\<lambda>i. i < length (rows ds)) drawn"
      "output_path \<noteq> dataset_path" "mkdir_error w output_path = None"
      "save_error w output_path = None"
      "choice random_seed (length (rows ds)) \<lfloor>x\<rfloor> False = Inr drawn"
      "output_path \<noteq> []"
      by simp_all
    note parts = create_subset_completes_parts [where choice = choice
        and random_seed = random_seed, OF assms(1) size' rest(5) rest(1-4) rest(6)]
    from parts(1) have "?run = (None, snd ?run)"
      by (simp add: prod_eq_iff)
    moreover from parts(2) some
    have "store (snd ?run) output_path
        = Some \<lparr>features = features ds, rows = map (\<lambda>i. rows ds ! i) (sort drawn)\<rparr>"
      by simp
    moreover have "length (rows \<lparr>features = features ds,
        rows = map (\<lambda>i. rows ds ! i) (sort drawn)\<rparr>) = nat \<lfloor>x\<rfloor>"
      using h by simp
    ultimately show ?thesis
      by blast
  qed
  from printed rejected saved show ?thesis
    by blast
qed

theorem create_subset_percentage_size_witness:
  "take 3 (drop (length (console example_world))
     (console (snd (create_subset example_sampler exact_mul ''ten'' ''out'' None
                      (Some (Finite (1 / 2))) 42 example_world))))
   = [Create (LoadingDataset ''ten''), Create (OriginalSize 10),
      Create (CreatingPct 5 (Finite (1 / 2)))]
   \<and> (\<exists>w' sub. create_subset example_sampler exact_mul ''ten'' ''out'' None
                  (Some (Finite (1 / 2))) 42 example_world = (None, w')
              \<and> store w' ''out'' = Some sub \<and> length (rows sub) = 5)"
proof -
  have load: "load_from_disk example_world ''ten'' = Inr ten_records"
    by (simp add: load_from_disk_def example_world_def)
  have len: "length (rows ten_records) = 10"
    by (simp add: ten_records_def)
  have prod: "exact_mul (int (length (rows ten_records))) (Finite (1 / 2)) = Finite 5"
    by (simp add: len exact_mul_def)
  have draw: "example_sampler 42 10 5 False = Inr [6, 5, 4, 3, 2]"
    by (simp add: example_sampler_def upt_rec)
  have fs: "mkdir_error example_world ''out'' = None" "save_error example_world ''out'' = None"
    by (simp_all add: example_world_def)
  from create_subset_percentage_size [where choice = example_sampler and random_seed = 42
      and fmul = exact_mul and output_path = "''out''" and drawn = "[6, 5, 4, 3, 2]",
      OF load prod]
    len draw fs
  show ?thesis
    by simp
qed

text \<open>
  C4 as the specification words it fails for a negative percentage: with percentage
  -0.25 on the 10 records at \<^verbatim>\<open>ten\<close> the product is -2.5; the run prints the size
  -2 and asks the sampler for -2 indices, which the sampler rejects; the floor of the
  product is -3.
\<close>

theorem create_subset_percentage_not_floor:
  "create_subset example_sampler exact_mul ''ten'' ''out'' None (Some (Finite (- 1 / 4))) 42
     example_world
   = (Some ValueError,
      example_world\<lparr>console :=
        [Create (LoadingDataset ''ten''), Create (OriginalSize 10),
         Create (CreatingPct (- 2) (Finite (- 1 / 4)))]\<rparr>)
   \<and> \<lfloor>(10::rat) * (- 1 / 4)\<rfloor> = - 3"
proof -
  have "\<lceil>- (5 / 2 :: rat)\<rceil> = - 2" and "\<lfloor>- (5 / 2 :: rat)\<rfloor> = - 3"
    by (simp_all add: floor_eq_iff ceiling_eq_iff)
  then show ?thesis
    by (simp add: create_subset_def load_from_disk_def example_world_def ten_records_def
        emit_def resolve_subset_size_def py_int_def exact_mul_def example_sampler_def Let_def)
qed

text \<open>
  C5. With a count larger than the number of records the size is clamped to that
  number. On a dataset that has records, for a draw without replacement of that many
  indices and an output path (not empty, not the input path) that can be made and saved
  to, \<open>create_subset\<close> then completes and saves the whole dataset.
\<close>

lemma create_subset_clamp_nonempty:
  assumes "load_from_disk w dataset_path = Inr ds"
    and "0 < length (rows ds)" and "int (length (rows ds)) < n"
    and "choice random_seed (length (rows ds)) (int (length (rows ds))) False = Inr drawn"
    and "length drawn = length (rows ds)"
    and "distinct drawn"
    and "list_all (\<lambda>i. i < length (rows ds)) drawn"
    and "output_path \<noteq> dataset_path"
    and "mkdir_error w output_path = None"
    and "save_error w output_path = None"
    and "output_path \<noteq> []"
  shows "\<exists>w'. create_subset choice fmul dataset_path output_path (Some n) subset_percentage
                 random_seed w = (None, w')
              \<and> store w' output_path = Some ds"
proof -
  have "py_truediv (int (length (rows ds))) (int (length (rows ds))) = Inr 1"
    using assms(2) by (simp add: py_truediv_def)
  with assms(3)
  have size: "resolve_subset_size fmul (length (rows ds)) (Some n) subset_percentage =
      Inr (int (length (rows ds)), Create (CreatingCount (int (length (rows ds)))
        (length (rows ds))))"
    by (simp add: resolve_subset_size_def Let_def min_def)
  have "sort drawn = [0 ..< length (rows ds)]"
    using assms(5,6,7) by (intro sorted_distinct_full_range) (simp_all add: list_all_sort)
  then have whole: "map (\<lambda>i. rows ds ! i) (sort drawn) = rows ds"
    by (simp add: map_nth)
  have some: "drawn \<noteq> []"
    using assms(2,5) by auto
  note parts = create_subset_completes_parts [where choice = choice
      and random_seed = random_seed and output_path = output_path,
      OF assms(1) size assms(4) assms(7) assms(8) assms(9) assms(10) assms(11)]
  from parts(1)
  have "create_subset choice fmul dataset_path output_path (Some n) subset_percentage
      random_seed w = (None, snd (create_subset choice fmul dataset_path output_path (Some n)
      subset_percentage random_seed w))"
    by (simp add: prod_eq_iff)
  moreover from parts(2) some whole
  have "store (snd (create_subset choice fmul dataset_path output_path (Some n)
      subset_percentage random_seed w)) output_path = Some ds"
    by simp
  ultimately show ?thesis
    by blast
qed

text \<open>
  C5 on an empty dataset: the message of the count branch divides by the number of
  records, so \<open>create_subset\<close> with \<^verbatim>\<open>--size 5\<close> on a dataset of 0 records raises
  \<^verbatim>\<open>ZeroDivisionError\<close> before it draws; nothing is saved and no directory is made.
\<close>

theorem create_subset_count_on_empty_dataset:
  "create_subset example_sampler exact_mul ''empty'' ''out'' (Some 5) None 42 example_world =
     (Some ZeroDivisionError,
      example_world\<lparr>console := [Create (LoadingDataset ''empty''), Create (OriginalSize 0)]\<rparr>)"
  by (simp add: create_subset_def load_from_disk_def example_world_def empty_dataset_def
      emit_def resolve_subset_size_def py_truediv_def Let_def)

text \<open>
  C6. Take two worlds that hold the same dataset at the input path and may differ in
  everything else, and run \<open>create_subset\<close> in both with the same count or percentage,
  resolving to \<open>k\<close>, and the same seed, with an output path (not empty, not the input
  path) that can be made and saved to in both. The draw is the sampler's for this seed, the number of records and \<open>k\<close>
  (a generator seeded with the same integer makes the same draw). Then both runs
  complete, both select the records at the same list of indices, the draw sorted, both
  print the same nine lines, and both leave the same content at the output path: the
  original's records at those indices, under the original's features.
\<close>

theorem create_subset_deterministic:
  assumes "load_from_disk w1 dataset_path = Inr ds"
    and "load_from_disk w2 dataset_path = Inr ds"
    and "resolve_subset_size fmul (length (rows ds)) subset_size subset_percentage = Inr (k, msg)"
    and "choice random_seed (length (rows ds)) k False = Inr drawn"
    and "list_all (\<lambda>i. i < length (rows ds)) drawn"
    and "output_path \<noteq> dataset_path"
    and "mkdir_error w1 output_path = None" and "save_error w1 output_path = None"
    and "mkdir_error w2 output_path = None" and "save_error w2 output_path = None"
    and "output_path \<noteq> []"
  shows "\<exists>w1' w2' indices.
           create_subset choice fmul dataset_path output_path subset_size subset_percentage
             random_seed w1 = (None, w1')
         \<and> create_subset choice fmul dataset_path output_path subset_size subset_percentage
             random_seed w2 = (None, w2')
         \<and> indices = sort drawn
         \<and> store w1' output_path = store w2' output_path
         \<and> store w1' output_path =
             (if indices = [] then None
              else Some \<lparr>features = features ds, rows = map (\<lambda>i. rows ds ! i) indices\<rparr>)
         \<and> drop (length (console w1)) (console w1') = drop (length (console w2)) (console w2')
         \<and> drop (length (console w1)) (console w1') =
             [Create (LoadingDataset dataset_path),
              Create (OriginalSize (length (rows ds))),
              msg,
              Create (SelectedIndices (length indices)),
              Create SelectingSamples,
              Create (SavingTo output_path),
              Create SubsetSaved,
              Create (SavedSamples (length indices)),
              Create (SavedLocation output_path)]"
proof -
  let ?run1 = "create_subset choice fmul dataset_path output_path subset_size
      subset_percentage random_seed w1"
  let ?run2 = "create_subset choice fmul dataset_path output_path subset_size
      subset_percentage random_seed w2"
  note parts1 = create_subset_completes_parts [where choice = choice
      and random_seed = random_seed,
      OF assms(1) assms(3) assms(4) assms(5) assms(6) assms(7) assms(8) assms(11)]
  note parts2 = create_subset_completes_parts [where choice = choice
      and random_seed = random_seed,
      OF assms(2) assms(3) assms(4) assms(5) assms(6) assms(9) assms(10) assms(11)]
  have run1: "?run1 = (None, snd ?run1)" and run2: "?run2 = (None, snd ?run2)"
    using parts1(1) parts2(1) by (simp_all add: prod_eq_iff)
  have "?run1 = (None, snd ?run1)
         \<and> ?run2 = (None, snd ?run2)
         \<and> sort drawn = sort drawn
         \<and> store (snd ?run1) output_path = store (snd ?run2) output_path
         \<and> store (snd ?run1) output_path =
             (if sort drawn = [] then None
              else Some \<lparr>features = features ds,
                          rows = map (\<lambda>i. rows ds ! i) (sort drawn)\<rparr>)
         \<and> drop (length (console w1)) (console (snd ?run1))
             = drop (length (console w2)) (console (snd ?run2))
         \<and> drop (length (console w1)) (console (snd ?run1)) =
             [Create (LoadingDataset dataset_path),
              Create (OriginalSize (length (rows ds))),
              msg,
              Create (SelectedIndices (length (sort drawn))),
              Create SelectingSamples,
              Create (SavingTo output_path),
              Create SubsetSaved,
              Create (SavedSamples (length (sort drawn))),
              Create (SavedLocation output_path)]"
    using run1 run2 by (simp add: parts1(2,3) parts2(2,3) sort_empty)
  then show ?thesis
    by blast
qed

theorem create_subset_deterministic_witness:
  "\<exists>w1' w2'.
     create_subset example_sampler exact_mul ''orig'' ''out'' (Some 2) None 42 example_world
       = (None, w1')
   \<and> create_subset example_sampler exact_mul ''orig'' ''out'' (Some 2) None 42 other_world
       = (None, w2')
   \<and> store w1' ''out'' = store w2' ''out''
   \<and> store w1' ''out''
       = Some \<lparr>features = [''src'', ''tgt''], rows = [pair_record 2, pair_record 3]\<rparr>
   \<and> store example_world ''out'' \<noteq> store other_world ''out''
   \<and> console example_world \<noteq> console other_world"
proof -
  have len: "length (rows example_dataset) = 4"
    by (simp add: example_dataset_def)
  have load1: "load_from_disk example_world ''orig'' = Inr example_dataset"
    by (simp add: load_from_disk_def example_world_def)
  have load2: "load_from_disk other_world ''orig'' = Inr example_dataset"
    by (simp add: load_from_disk_def other_world_def)
  have size: "resolve_subset_size exact_mul (length (rows example_dataset)) (Some 2) None
      = Inr (2, Create (CreatingCount 2 4))"
    by (simp add: len resolve_subset_size_def py_truediv_def Let_def)
  have draw: "example_sampler 42 (length (rows example_dataset)) 2 False = Inr [3, 2]"
    by (simp add: len example_sampler_def upt_rec)
  have range: "list_all (\<lambda>i. i < length (rows example_dataset)) [3, 2]"
    by (simp add: len)
  have fs: "mkdir_error example_world ''out'' = None" "save_error example_world ''out'' = None"
    "mkdir_error other_world ''out'' = None" "save_error other_world ''out'' = None"
    by (simp_all add: example_world_def other_world_def)
  have ne: "''out'' \<noteq> ''orig''" "''out'' \<noteq> []"
    by simp_all
  have differ: "store example_world ''out'' \<noteq> store other_world ''out''"
    "console example_world \<noteq> console other_world"
    by (simp_all add: example_world_def other_world_def)
  from create_subset_deterministic [where choice = example_sampler and random_seed = 42
      and fmul = exact_mul and output_path = "''out''",
      OF load1 load2 size draw range ne(1) fs ne(2)]
  obtain w1' w2' indices where r:
    "create_subset example_sampler exact_mul ''orig'' ''out'' (Some 2) None 42 example_world
       = (None, w1')"
    "create_subset example_sampler exact_mul ''orig'' ''out'' (Some 2) None 42 other_world
       = (None, w2')"
    "indices = sort [3, 2 :: nat]"
    "store w1' ''out'' = store w2' ''out''"
    "store w1' ''out'' =
       (if indices = [] then None
        else Some \<lparr>features = features example_dataset,
                    rows = map (\<lambda>i. rows example_dataset ! i) indices\<rparr>)"
    by blast
  from r(3) have "indices = [2, 3]"
    by simp
  with r(5) have "store w1' ''out''
       = Some \<lparr>features = [''src'', ''tgt''], rows = [pair_record 2, pair_record 3]\<rparr>"
    by (simp add: example_dataset_def)
  with r(1,2,4) differ show ?thesis
    by blast
qed

text \<open>
  The seed decides the draw of the example sampler: with seed 7 the same run saves
  other records than with seed 42.
\<close>

lemma create_subset_other_seed:
  "\<exists>w'. create_subset example_sampler exact_mul ''orig'' ''out'' (Some 2) None 7 example_world
           = (None, w')
        \<and> store w' ''out''
           = Some \<lparr>features = [''src'', ''tgt''], rows = [pair_record 0, pair_record 3]\<rparr>"
proof -
  have len: "length (rows example_dataset) = 4"
    by (simp add: example_dataset_def)
  have load: "load_from_disk example_world ''orig'' = Inr example_dataset"
    by (simp add: load_from_disk_def example_world_def)
  have size: "resolve_subset_size exact_mul (length (rows example_dataset)) (Some 2) None
      = Inr (2, Create (CreatingCount 2 4))"
    by (simp add: len resolve_subset_size_def py_truediv_def Let_def)
  have draw: "example_sampler 7 (length (rows example_dataset)) 2 False = Inr [0, 3]"
    by (simp add: len example_sampler_def upt_rec)
  have range: "list_all (\<lambda>i. i < length (rows example_dataset)) [0, 3]"
    by (simp add: len)
  have ne: "''out'' \<noteq> ''orig''" "''out'' \<noteq> []"
    by simp_all
  have fs: "mkdir_error example_world ''out'' = None" "save_error example_world ''out'' = None"
    by (simp_all add: example_world_def)
  note parts = create_subset_completes_parts [where choice = example_sampler
      and random_seed = 7 and fmul = exact_mul and output_path = "''out''",
      OF load size draw range ne(1) fs ne(2)]
  from parts(1)
  have "create_subset example_sampler exact_mul ''orig'' ''out'' (Some 2) None 7 example_world
      = (None, snd (create_subset example_sampler exact_mul ''orig'' ''out'' (Some 2) None 7
          example_world))"
    by (simp add: prod_eq_iff)
  moreover from parts(2)
  have "store (snd (create_subset example_sampler exact_mul ''orig'' ''out'' (Some 2) None 7
          example_world)) ''out''
      = Some \<lparr>features = [''src'', ''tgt''], rows = [pair_record 0, pair_record 3]\<rparr>"
    by (simp add: example_dataset_def)
  ultimately show ?thesis
    by blast
qed



section \<open>The claims about the subset verifier\<close>

text \<open>
  C2. \<open>verify_subset\<close> returns true exactly when none of the failure conditions
  holds: a missing original path, a missing subset path, a load error on either
  dataset, a subset larger than the original, an empty subset. When one holds, the
  message of the first such condition is the last line printed and none of the later
  checks (features, sample, preview, summary) has printed anything.
\<close>

theorem verify_subset_verdict:
  "fst (verify_subset original_path subset_path show_samples w) =
     Inr (fail_condition original_path subset_path w = None)
   \<and> (\<forall>e. fail_condition original_path subset_path w = Some e \<longrightarrow>
          last (snd (verify_subset original_path subset_path show_samples w)) = e
        \<and> \<not> list_ex later_check (snd (verify_subset original_path subset_path show_samples w)))"
proof (cases "fail_condition original_path subset_path w")
  case None
  then obtain a b where "original_path \<in> paths w" "subset_path \<in> paths w"
    "load_from_disk w original_path = Inr a" "load_from_disk w subset_path = Inr b"
    "0 < length (rows b)" "length (rows b) \<le> length (rows a)"
    by (auto simp: fail_condition_def split: if_splits sum.splits)
  from verify_subset_passes [OF this] None show ?thesis
    by simp
next
  case (Some e)
  with verify_subset_fails [OF Some] show ?thesis
    by simp
qed

theorem verify_subset_verdict_witness:
  "fst (verify_subset ''orig'' ''empty'' 3 example_world) = Inr False
   \<and> last (snd (verify_subset ''orig'' ''empty'' 3 example_world)) = Size ErrSubsetEmpty
   \<and> \<not> list_ex later_check (snd (verify_subset ''orig'' ''empty'' 3 example_world))
   \<and> fst (verify_subset ''orig'' ''corrupt'' 3 example_world) = Inr False
   \<and> last (snd (verify_subset ''orig'' ''corrupt'' 3 example_world))
       = Load (ErrLoadingSubset LoadError)
   \<and> fst (verify_subset ''orig'' ''sub'' 3 example_world) = Inr True"
proof -
  have "fail_condition ''orig'' ''empty'' example_world = Some (Size ErrSubsetEmpty)"
    by (simp add: fail_condition_def load_from_disk_def example_world_def
        example_dataset_def empty_dataset_def)
  moreover have "fail_condition ''orig'' ''corrupt'' example_world
      = Some (Load (ErrLoadingSubset LoadError))"
    by (simp add: fail_condition_def load_from_disk_def example_world_def)
  moreover have "fail_condition ''orig'' ''sub'' example_world = None"
    by (simp add: fail_condition_def load_from_disk_def example_world_def
        example_dataset_def sub_dataset_def)
  ultimately show ?thesis
    using verify_subset_verdict [of "''orig''" "''empty''" 3 example_world]
      verify_subset_verdict [of "''orig''" "''corrupt''" 3 example_world]
      verify_subset_verdict [of "''orig''" "''sub''" 3 example_world]
    by simp
qed

text \<open>
  C7. When both paths exist, both datasets load and the subset is not empty and not
  larger than the original, \<open>verify_subset\<close> returns true whatever the features are.
  When the two sets of field names differ, the warning is printed, the fields of the
  original missing in the subset are listed exactly when there are some, and so are the
  fields the subset has in addition.
\<close>

theorem verify_subset_feature_mismatch:
  assumes "original_path \<in> paths w" and "subset_path \<in> paths w"
    and "load_from_disk w original_path = Inr a"
    and "load_from_disk w subset_path = Inr b"
    and "0 < length (rows b)" and "length (rows b) \<le> length (rows a)"
    and "set (features a) \<noteq> set (features b)"
  shows "fst (verify_subset original_path subset_path show_samples w) = Inr True
       \<and> Feature WarnFeaturesDiffer
           \<in> set (snd (verify_subset original_path subset_path show_samples w))
       \<and> (Feature (MissingInSubset (set (features a) - set (features b)))
            \<in> set (snd (verify_subset original_path subset_path show_samples w))
          \<longleftrightarrow> set (features a) - set (features b) \<noteq> {})
       \<and> (Feature (ExtraInSubset (set (features b) - set (features a)))
            \<in> set (snd (verify_subset original_path subset_path show_samples w))
          \<longleftrightarrow> set (features b) - set (features a) \<noteq> {})"
proof -
  let ?out = "snd (verify_subset original_path subset_path show_samples w)"
  note run = verify_subset_passes [OF assms(1-6), of show_samples]
  have other: "Feature m \<notin> set (check_sample_guarded a b)"
      "Feature m \<notin> set (display_samples b show_samples)" for m
    using check_sample_guarded_events [of "Feature m" a b]
      display_samples_events [of "Feature m" b show_samples]
    by auto
  have mem: "Feature m \<in> set ?out \<longleftrightarrow> Feature m \<in> set (check_features a b)" for m
    using other [of m] by (simp add: run)
  have verdict: "fst (verify_subset original_path subset_path show_samples w) = Inr True"
    by (simp add: run)
  have warned: "Feature WarnFeaturesDiffer \<in> set (check_features a b)"
    using assms(7) by (simp add: check_features_def Let_def)
  have missing: "Feature (MissingInSubset (set (features a) - set (features b)))
        \<in> set (check_features a b) \<longleftrightarrow> set (features a) - set (features b) \<noteq> {}"
    using assms(7) by (simp add: check_features_def Let_def)
  have extra: "Feature (ExtraInSubset (set (features b) - set (features a)))
        \<in> set (check_features a b) \<longleftrightarrow> set (features b) - set (features a) \<noteq> {}"
    using assms(7) by (simp add: check_features_def Let_def)
  show ?thesis
    unfolding mem using verdict warned missing extra by (intro conjI)
qed

theorem verify_subset_feature_mismatch_witness:
  "fst (verify_subset ''orig'' ''extra'' 3 example_world) = Inr True
   \<and> Feature WarnFeaturesDiffer \<in> set (snd (verify_subset ''orig'' ''extra'' 3 example_world))
   \<and> Feature (ExtraInSubset {''extra''})
       \<in> set (snd (verify_subset ''orig'' ''extra'' 3 example_world))
   \<and> Feature (MissingInSubset {})
       \<notin> set (snd (verify_subset ''orig'' ''extra'' 3 example_world))"
proof -
  have a: "load_from_disk example_world ''orig'' = Inr example_dataset"
    by (simp add: load_from_disk_def example_world_def)
  have b: "load_from_disk example_world ''extra'' = Inr extra_dataset"
    by (simp add: load_from_disk_def example_world_def)
  have missing: "set (features example_dataset) - set (features extra_dataset) = {}"
    by (simp add: example_dataset_def extra_dataset_def)
  have extra: "set (features extra_dataset) - set (features example_dataset) = {''extra''}"
    by (auto simp: example_dataset_def extra_dataset_def)
  have differ: "set (features example_dataset) \<noteq> set (features extra_dataset)"
    using extra by blast
  have sizes: "0 < length (rows extra_dataset)"
    "length (rows extra_dataset) \<le> length (rows example_dataset)"
    by (simp_all add: example_dataset_def extra_dataset_def)
  have "''orig'' \<in> paths example_world" and "''extra'' \<in> paths example_world"
    by (simp_all add: example_world_def)
  from verify_subset_feature_mismatch [OF this a b sizes differ, of 3]
  show ?thesis
    unfolding missing extra by simp
qed

text \<open>
  C8. When both paths exist, both datasets load and the subset is not empty and not
  larger than the original, \<open>verify_subset\<close> returns true, also when the check of the
  first records or the preview raises. The warning of the sample check is printed
  exactly when that check raised, and it names the exception; so does the warning of
  the preview. A record among those previewed that has an empty list as a value makes
  the preview raise \<^verbatim>\<open>IndexError\<close> at \<^verbatim>\<open>value[0]\<close>, which is printed as a warning.
\<close>

theorem verify_subset_exceptions_caught:
  assumes "original_path \<in> paths w" and "subset_path \<in> paths w"
    and "load_from_disk w original_path = Inr a"
    and "load_from_disk w subset_path = Inr b"
    and "0 < length (rows b)" and "length (rows b) \<le> length (rows a)"
  shows "fst (verify_subset original_path subset_path show_samples w) = Inr True
       \<and> (Sample (WarnSampleError err)
             \<in> set (snd (verify_subset original_path subset_path show_samples w))
           \<longleftrightarrow> snd (check_sample a b) = Some err)
       \<and> (Display (WarnDisplayError err)
             \<in> set (snd (verify_subset original_path subset_path show_samples w))
           \<longleftrightarrow> 0 < show_samples
               \<and> snd (show_records b [0 ..< nat (min show_samples (int (length (rows b))))])
                   = Some err)
       \<and> (0 < show_samples \<and> i < nat (min show_samples (int (length (rows b))))
            \<and> (key, VList []) \<in> set (rows b ! i) \<longrightarrow>
          Display (WarnDisplayError IndexError)
            \<in> set (snd (verify_subset original_path subset_path show_samples w)))"
proof -
  let ?out = "snd (verify_subset original_path subset_path show_samples w)"
  let ?is = "[0 ..< nat (min show_samples (int (length (rows b))))]"
  note run = verify_subset_passes [OF assms, of show_samples]
  have verdict: "fst (verify_subset original_path subset_path show_samples w) = Inr True"
    by (simp add: run)
  have "Sample m \<notin> set (check_features a b)"
    and "Sample m \<notin> set (display_samples b show_samples)" for m
    using check_features_events [of "Sample m" a b]
      display_samples_events [of "Sample m" b show_samples]
    by auto
  then have "Sample m \<in> set ?out \<longleftrightarrow>
      m = CheckingSample \<or> Sample m \<in> set (check_sample_guarded a b)" for m
    by (auto simp: run)
  then have sample: "Sample (WarnSampleError err) \<in> set ?out
      \<longleftrightarrow> snd (check_sample a b) = Some err"
    by (simp add: check_sample_guarded_warning)
  have "Display m \<notin> set (check_features a b)"
    and "Display m \<notin> set (check_sample_guarded a b)" for m
    using check_features_events [of "Display m" a b]
      check_sample_guarded_events [of "Display m" a b]
    by auto
  then have shown: "Display m \<in> set ?out \<longleftrightarrow> Display m \<in> set (display_samples b show_samples)"
    for m
    by (auto simp: run)
  have display: "Display (WarnDisplayError err) \<in> set ?out
      \<longleftrightarrow> 0 < show_samples \<and> snd (show_records b ?is) = Some err"
    unfolding shown by (rule display_samples_warning)
  have empty_list: "Display (WarnDisplayError IndexError) \<in> set ?out"
    if "0 < show_samples \<and> i < nat (min show_samples (int (length (rows b))))
        \<and> (key, VList []) \<in> set (rows b ! i)"
  proof -
    from that have "i \<in> set ?is" and "i < length (rows b)"
      by auto
    with that have "snd (show_records b ?is) = Some IndexError"
      by (intro show_records_empty_list [of i ?is b key]) simp_all
    with that show ?thesis
      unfolding shown by (simp add: display_samples_warning)
  qed
  from verdict sample display empty_list show ?thesis
    by blast
qed

theorem verify_subset_exceptions_caught_witness:
  "fst (verify_subset ''lists'' ''odd'' 3 example_world) = Inr True
   \<and> Sample (WarnSampleError TypeError)
       \<in> set (snd (verify_subset ''lists'' ''odd'' 3 example_world))
   \<and> Display (WarnDisplayError IndexError)
       \<in> set (snd (verify_subset ''lists'' ''odd'' 3 example_world))"
proof -
  have a: "load_from_disk example_world ''lists'' = Inr lists_dataset"
    by (simp add: load_from_disk_def example_world_def)
  have b: "load_from_disk example_world ''odd'' = Inr odd_dataset"
    by (simp add: load_from_disk_def example_world_def)
  have sizes: "0 < length (rows odd_dataset)"
    "length (rows odd_dataset) \<le> length (rows lists_dataset)"
    by (simp_all add: odd_dataset_def lists_dataset_def)
  have raised: "snd (check_sample lists_dataset odd_dataset) = Some TypeError"
    by (simp add: check_sample_def getitem_def check_field_def Let_def
        odd_dataset_def lists_dataset_def odd_record_def lists_record_def)
  have previewed: "0 < (3::int) \<and> 0 < nat (min 3 (int (length (rows odd_dataset))))
      \<and> (''b'', VList []) \<in> set (rows odd_dataset ! 0)"
    by (simp add: odd_dataset_def odd_record_def)
  have "''lists'' \<in> paths example_world" and "''odd'' \<in> paths example_world"
    by (simp_all add: example_world_def)
  from verify_subset_exceptions_caught [OF this a b sizes, of 3 TypeError 0 "''b''"]
    raised previewed
  show ?thesis
    by blast
qed

text \<open>
  C9. When the original dataset has no records, \<open>verify_subset\<close> returns false. The
  percentage is computed without an exception whatever the two sizes are, and for an
  original of size 0 it is 0: when the subset loads, the percentage reported is 0 and
  the last line printed says that the subset is empty, if it is, and that it is larger
  than the original otherwise.
\<close>

theorem verify_subset_empty_original:
  assumes "load_from_disk w original_path = Inr a" and "rows a = []"
  shows "fst (verify_subset original_path subset_path show_samples w) = Inr False
       \<and> (\<exists>q. percentage_of k m = Inr q)
       \<and> percentage_of k 0 = Inr 0
       \<and> (\<forall>b. load_from_disk w subset_path = Inr b \<longrightarrow>
            Size (ReportPercentage 0)
              \<in> set (snd (verify_subset original_path subset_path show_samples w))
          \<and> last (snd (verify_subset original_path subset_path show_samples w))
              = (if rows b = [] then Size ErrSubsetEmpty else Size WarnSubsetLarger))"
proof -
  from assms(1) have orig: "original_path \<in> paths w"
    by (simp add: load_from_disk_def split: if_splits)
  have "fail_condition original_path subset_path w \<noteq> None"
    using assms orig by (simp add: fail_condition_def split: sum.splits)
  then obtain e where "fail_condition original_path subset_path w = Some e"
    by blast
  then have verdict: "fst (verify_subset original_path subset_path show_samples w) = Inr False"
    by (rule verify_subset_fails)
  have report: "Size (ReportPercentage 0)
              \<in> set (snd (verify_subset original_path subset_path show_samples w))
          \<and> last (snd (verify_subset original_path subset_path show_samples w))
              = (if rows b = [] then Size ErrSubsetEmpty else Size WarnSubsetLarger)"
    if "load_from_disk w subset_path = Inr b" for b
  proof -
    from that have "subset_path \<in> paths w"
      by (simp add: load_from_disk_def split: if_splits)
    with that assms orig show ?thesis
      by (simp add: verify_subset_def percentage_of_value Let_def)
  qed
  from verdict report show ?thesis
    by (simp add: percentage_of_value)
qed

theorem verify_subset_empty_original_witness:
  "fst (verify_subset ''empty'' ''sub'' 3 example_world) = Inr False
   \<and> Size (ReportPercentage 0) \<in> set (snd (verify_subset ''empty'' ''sub'' 3 example_world))
   \<and> last (snd (verify_subset ''empty'' ''sub'' 3 example_world)) = Size WarnSubsetLarger
   \<and> fst (verify_subset ''empty'' ''empty'' 3 example_world) = Inr False
   \<and> last (snd (verify_subset ''empty'' ''empty'' 3 example_world)) = Size ErrSubsetEmpty"
proof -
  have a: "load_from_disk example_world ''empty'' = Inr empty_dataset"
    by (simp add: load_from_disk_def example_world_def)
  have b: "load_from_disk example_world ''sub'' = Inr sub_dataset"
    by (simp add: load_from_disk_def example_world_def)
  have none: "rows empty_dataset = []"
    by (simp add: empty_dataset_def)
  have some: "rows sub_dataset \<noteq> []"
    by (simp add: sub_dataset_def)
  from verify_subset_empty_original [OF a none, of "''sub''" 3]
    verify_subset_empty_original [OF a none, of "''empty''" 3] a b none some
  show ?thesis
    by simp
qed

end
